theory Spec2Isabelle
  imports Complex_Main
begin

section \<open>Python values and the builtins the program relies on\<close>

text \<open>
  The program (\<^verbatim>\<open>app1.py\<close>) reads attribute values of ontology individuals; they are
  dynamically typed. \<open>pyval\<close> is the part of Python's value universe those attributes
  range over. A Python \<^verbatim>\<open>float\<close> is modelled by a real number: arithmetic is exact,
  rounding, infinities and NaN are outside the model.
\<close>

datatype pyval = PyNone | PyInt int | PyFloat real | PyStr string | PyList "pyval list"

text \<open>Truth value of an object, as \<^verbatim>\<open>if x:\<close> and \<^verbatim>\<open>x and y\<close> test it.\<close>

fun truthy :: "pyval \<Rightarrow> bool" where
  "truthy PyNone = False"
| "truthy (PyInt n) = (n \<noteq> 0)"
| "truthy (PyFloat x) = (x \<noteq> 0)"
| "truthy (PyStr s) = (s \<noteq> [])"
| "truthy (PyList vs) = (vs \<noteq> [])"

text \<open>\<^verbatim>\<open>isinstance(x, list)\<close>.\<close>

fun is_list :: "pyval \<Rightarrow> bool" where
  "is_list (PyList vs) = True"
| "is_list v = False"

datatype exn = ValueError | TypeError | IndexError | ZeroDivisionError | AttributeError

text \<open>\<^verbatim>\<open>x[0]\<close>: the first element of a list, the first character of a string.\<close>

fun index0 :: "pyval \<Rightarrow> exn + pyval" where
  "index0 (PyList []) = Inl IndexError"
| "index0 (PyList (v # vs)) = Inr v"
| "index0 (PyStr []) = Inl IndexError"
| "index0 (PyStr (c # cs)) = Inr (PyStr [c])"
| "index0 v = Inl TypeError"

text \<open>
  \<^verbatim>\<open>str\<close> and \<^verbatim>\<open>float\<close> are builtins of the language, not code of the program. What
  \<^verbatim>\<open>str\<close> prints for a value that is not already a string, and which strings
  \<^verbatim>\<open>float\<close> reads as which number, are parameters of the model (\<open>None\<close> stands for
  the \<^verbatim>\<open>ValueError\<close> of \<^verbatim>\<open>float\<close>); every theorem below holds for all of them.
\<close>

record builtins =
  str_other :: "pyval \<Rightarrow> string"
  float_str :: "string \<Rightarrow> real option"

definition py_str :: "builtins \<Rightarrow> pyval \<Rightarrow> string" where
  "py_str B v = (case v of PyStr s \<Rightarrow> s | _ \<Rightarrow> str_other B v)"

fun py_float :: "builtins \<Rightarrow> pyval \<Rightarrow> exn + real" where
  "py_float B (PyFloat x) = Inr x"
| "py_float B (PyInt n) = Inr (of_int n)"
| "py_float B (PyStr s) = (case float_str B s of None \<Rightarrow> Inl ValueError | Some x \<Rightarrow> Inr x)"
| "py_float B PyNone = Inl TypeError"
| "py_float B (PyList vs) = Inl TypeError"

text \<open>\<^verbatim>\<open>s.lower()\<close> on the ASCII letters.\<close>

definition lower_char :: "char \<Rightarrow> char" where
  "lower_char c =
     (case map_of (zip ''ABCDEFGHIJKLMNOPQRSTUVWXYZ'' ''abcdefghijklmnopqrstuvwxyz'') c of
        None \<Rightarrow> c
      | Some d \<Rightarrow> d)"

definition py_lower :: "string \<Rightarrow> string" where
  "py_lower s = map lower_char s"

text \<open>\<^verbatim>\<open>s.split(sep)\<close> for a one-character separator: never empty.\<close>

fun split_on :: "char \<Rightarrow> string \<Rightarrow> string list" where
  "split_on sep [] = [[]]"
| "split_on sep (c # cs) =
     (if c = sep then [] # split_on sep cs
      else (case split_on sep cs of [] \<Rightarrow> [[c]] | t # ts \<Rightarrow> (c # t) # ts))"

section \<open>The ontology individuals the engine reads\<close>

text \<open>
  An attribute the program tests with \<^verbatim>\<open>hasattr\<close> is an \<open>option\<close> (\<open>None\<close>: the
  individual has no such attribute). An attribute it only reads with
  \<^verbatim>\<open>getattr(x, a, None)\<close> is a \<open>pyval\<close>, \<open>PyNone\<close> when it is missing.
\<close>

record dimension =
  dimensionName :: pyval
  dimensionValue :: pyval

text \<open>A class in \<^verbatim>\<open>s.is_a\<close> is its name, \<open>None\<close> when it has no \<^verbatim>\<open>name\<close> attribute.\<close>

record shape =
  shape_name :: string
  is_a :: "string option list"

record problem =
  problem_name :: string
  hasShape :: "shape list option"
  hasProblemDimension :: "dimension list option"
  hasDimension :: "dimension list option"
  inline_dimensionName :: pyval
  inline_dimensionValue :: pyval
  correctAnswer :: "pyval option"

section \<open>dims_for_problem\<close>

text \<open>
  One round of the loop over the dimensions: the pair appended to \<^verbatim>\<open>dims\<close>, or the
  exception of \<^verbatim>\<open>d.dimensionName[0]\<close>.
\<close>

definition coerce_val :: "builtins \<Rightarrow> pyval \<Rightarrow> pyval" where
  "coerce_val B val = (if val \<noteq> PyNone then PyStr (py_str B val) else val)"

definition dim_entry :: "builtins \<Rightarrow> dimension \<Rightarrow> exn + (pyval \<times> pyval)" where
  "dim_entry B d =
     (case (if truthy (dimensionName d) then index0 (dimensionName d) else Inr (PyStr [])) of
        Inl e \<Rightarrow> Inl e
      | Inr name \<Rightarrow>
          (let val = (if truthy (dimensionValue d) \<and> is_list (dimensionValue d)
                      then (case dimensionValue d of PyList (v # vs) \<Rightarrow> v | w \<Rightarrow> w)
                      else dimensionValue d)
           in Inr (name, coerce_val B val)))"

text \<open>
  The \<^verbatim>\<open>for d in ...\<close> loop inside the \<^verbatim>\<open>try\<close>: an exception leaves the loop, the
  handler reports it, and the pairs collected so far are returned.
\<close>

fun dims_loop :: "builtins \<Rightarrow> dimension list \<Rightarrow> (pyval \<times> pyval) list" where
  "dims_loop B [] = []"
| "dims_loop B (d # ds) =
     (case dim_entry B d of Inl e \<Rightarrow> [] | Inr nv \<Rightarrow> nv # dims_loop B ds)"

definition inline_dims :: "builtins \<Rightarrow> problem \<Rightarrow> (pyval \<times> pyval) list" where
  "inline_dims B p =
     (if truthy (inline_dimensionValue p) then
        (let name = (if truthy (inline_dimensionName p) \<and> is_list (inline_dimensionName p)
                     then (case inline_dimensionName p of PyList (v # vs) \<Rightarrow> v | w \<Rightarrow> w)
                     else PyStr []);
             val = (case inline_dimensionValue p of PyList (v # vs) \<Rightarrow> v | w \<Rightarrow> w)
         in [(name, coerce_val B val)])
      else [])"

definition nonempty_attr :: "'a list option \<Rightarrow> bool" where
  "nonempty_attr a = (case a of None \<Rightarrow> False | Some xs \<Rightarrow> xs \<noteq> [])"

definition dims_for_problem :: "builtins \<Rightarrow> problem \<Rightarrow> (pyval \<times> pyval) list" where
  "dims_for_problem B p =
     (if nonempty_attr (hasProblemDimension p) then dims_loop B (the (hasProblemDimension p))
      else if nonempty_attr (hasDimension p) then dims_loop B (the (hasDimension p))
      else inline_dims B p)"

section \<open>shape_for_problem\<close>

definition known_kinds :: "string list" where
  "known_kinds = [''Circle'', ''Square'', ''Rectangle'', ''Triangle'']"

text \<open>The loop over \<^verbatim>\<open>s.is_a\<close>: the first class name that is a known kind.\<close>

fun first_known :: "string option list \<Rightarrow> string option" where
  "first_known [] = None"
| "first_known (None # cs) = first_known cs"
| "first_known (Some cname # cs) =
     (if cname \<in> set known_kinds then Some cname else first_known cs)"

definition name_hint :: "string \<Rightarrow> string" where
  "name_hint nm = hd (split_on (CHR ''_'') nm)"

definition shape_for_problem :: "problem \<Rightarrow> string option \<times> shape option" where
  "shape_for_problem p =
     (case hasShape p of
        None \<Rightarrow> (None, None)
      | Some [] \<Rightarrow> (None, None)
      | Some (s # ss) \<Rightarrow>
          (case first_known (is_a s) of
             Some cname \<Rightarrow> (Some cname, Some s)
           | None \<Rightarrow>
               if shape_name s \<noteq> [] \<and> CHR ''_'' \<in> set (shape_name s)
                  \<and> name_hint (shape_name s) \<in> set known_kinds
               then (Some (name_hint (shape_name s)), Some s)
               else (case is_a s of
                       [] \<Rightarrow> (None, Some s)
                     | first # cs \<Rightarrow> (first, Some s))))"

section \<open>compute_answer\<close>

text \<open>\<^verbatim>\<open>float(v) if v is not None else None\<close> under \<^verbatim>\<open>except (ValueError, TypeError)\<close>.\<close>

definition float_or_none :: "builtins \<Rightarrow> pyval \<Rightarrow> real option" where
  "float_or_none B v =
     (if v = PyNone then None
      else (case py_float B v of Inl e \<Rightarrow> None | Inr x \<Rightarrow> Some x))"

text \<open>
  The first loop of \<^verbatim>\<open>get_val\<close>. \<open>None\<close>: the loop ended without a \<^verbatim>\<open>return\<close>;
  \<open>Some r\<close>: it returned \<open>r\<close> at the first entry whose name matches.
\<close>

fun search_by_name :: "builtins \<Rightarrow> string list \<Rightarrow> (pyval \<times> pyval) list \<Rightarrow> real option option" where
  "search_by_name B target_names [] = None"
| "search_by_name B target_names ((n, v) # ds) =
     (if truthy n \<and> py_lower (py_str B n) \<in> set target_names
      then Some (float_or_none B v)
      else search_by_name B target_names ds)"

definition get_val :: "builtins \<Rightarrow> (pyval \<times> pyval) list \<Rightarrow> string list \<Rightarrow> real option" where
  "get_val B dims names =
     (case search_by_name B (map py_lower names) dims of
        Some r \<Rightarrow> r
      | None \<Rightarrow> (case dims of [(n, v)] \<Rightarrow> float_or_none B v | _ \<Rightarrow> None))"

text \<open>
  The positional step of the Rectangle branch. A \<^verbatim>\<open>ValueError\<close> returns \<open>None\<close>
  there; any other exception reaches the handler of \<^verbatim>\<open>compute_answer\<close>, which
  returns \<open>None\<close> as well.
\<close>

definition rectangle_answer :: "builtins \<Rightarrow> (pyval \<times> pyval) list \<Rightarrow> real option" where
  "rectangle_answer B dims =
     (let l = get_val B dims [''length'', ''l''];
          w = get_val B dims [''width'', ''w'']
      in if l = None \<or> w = None then
           (case dims of
              (n0, v0) # (n1, v1) # rest \<Rightarrow>
                if v0 \<noteq> PyNone \<and> v1 \<noteq> PyNone then
                  (case py_float B v0 of
                     Inl e \<Rightarrow> None
                   | Inr l' \<Rightarrow> (case py_float B v1 of Inl e \<Rightarrow> None | Inr w' \<Rightarrow> Some (l' * w')))
                else None
            | _ \<Rightarrow> None)
         else Some (the l * the w))"

definition compute_answer :: "builtins \<Rightarrow> problem \<Rightarrow> real option" where
  "compute_answer B p =
     (let shape = fst (shape_for_problem p);
          dims = dims_for_problem B p
      in if shape = Some ''Circle'' then
           (case get_val B dims [''radius'', ''r''] of None \<Rightarrow> None | Some r \<Rightarrow> Some (pi * r * r))
         else if shape = Some ''Square'' then
           (case get_val B dims [''side'', ''s''] of None \<Rightarrow> None | Some s \<Rightarrow> Some (s * s))
         else if shape = Some ''Rectangle'' then rectangle_answer B dims
         else if shape = Some ''Triangle'' then
           (case (get_val B dims [''base'', ''b''], get_val B dims [''height'', ''h'']) of
              (Some b, Some h) \<Rightarrow> Some (0.5 * b * h)
            | _ \<Rightarrow> None)
         else None)"

section \<open>approx_equal\<close>

text \<open>
  \<^verbatim>\<open>a = float(a); b = float(b)\<close> inside \<^verbatim>\<open>try\<close>; \<^verbatim>\<open>except Exception\<close> returns
  \<^verbatim>\<open>False\<close>.
\<close>

definition approx_equal_tol :: "builtins \<Rightarrow> pyval \<Rightarrow> pyval \<Rightarrow> real \<Rightarrow> real \<Rightarrow> bool" where
  "approx_equal_tol B a b rel_tol abs_tol =
     (case py_float B a of
        Inl e \<Rightarrow> False
      | Inr x \<Rightarrow>
          (case py_float B b of
             Inl e \<Rightarrow> False
           | Inr y \<Rightarrow> \<bar>x - y\<bar> \<le> max abs_tol (rel_tol * \<bar>y\<bar>)))"

definition approx_equal :: "builtins \<Rightarrow> pyval \<Rightarrow> pyval \<Rightarrow> bool" where
  "approx_equal B a b = approx_equal_tol B a b 0.02 0.05"

section \<open>problem_submit\<close>

record attempt =
  attempt_name :: string
  attemptOf :: "problem list option"
  hasAnswer :: "real list option"
  isCorrect :: "bool list option"

record student =
  student_name :: string
  studentScore :: "int list option"
  masteryLevel :: "real list option"
  attempts :: "attempt list option"

text \<open>\<^verbatim>\<open>a / b\<close> on floats raises \<^verbatim>\<open>ZeroDivisionError\<close> when \<open>b\<close> is zero.\<close>

definition py_truediv :: "real \<Rightarrow> real \<Rightarrow> exn + real" where
  "py_truediv a b = (if b = 0 then Inl ZeroDivisionError else Inr (a / b))"

text \<open>\<^verbatim>\<open>s.strip()\<close> on the ASCII whitespace characters.\<close>

definition is_space :: "char \<Rightarrow> bool" where
  "is_space c = (c \<in> set [CHR '' '', CHR 0x09, CHR 0x0A, CHR 0x0B, CHR 0x0C, CHR 0x0D])"

definition py_strip :: "string \<Rightarrow> string" where
  "py_strip s = rev (dropWhile is_space (rev (dropWhile is_space s)))"

text \<open>
  The fallback of \<^verbatim>\<open>problem_submit\<close> to the stored answer once \<^verbatim>\<open>compute_answer\<close>
  has returned \<^verbatim>\<open>None\<close>. \<open>None\<close>: one of the two "Cannot compute or read correct
  answer" messages is flashed and the request is redirected.
\<close>

definition stored_correct :: "builtins \<Rightarrow> problem \<Rightarrow> real option" where
  "stored_correct B prob =
     (let stored_answer = (case correctAnswer prob of None \<Rightarrow> PyNone | Some v \<Rightarrow> v)
      in if truthy stored_answer then
           (case (if is_list stored_answer then index0 stored_answer else Inr stored_answer) of
              Inl e \<Rightarrow> None
            | Inr v \<Rightarrow> (case py_float B v of Inl e \<Rightarrow> None | Inr c \<Rightarrow> Some c))
         else None)"

text \<open>A student that \<^verbatim>\<open>StudentClass(student_name)\<close> has just created.\<close>

definition init_student :: "student \<Rightarrow> student" where
  "init_student s =
     s\<lparr>studentScore := (case studentScore s of None \<Rightarrow> Some [0] | Some sc \<Rightarrow> Some sc),
       masteryLevel := (case masteryLevel s of None \<Rightarrow> Some [0.0] | Some ml \<Rightarrow> Some ml)\<rparr>"

text \<open>The attributes of the new attempt, each set only when the attempt has it.\<close>

definition link_attempt :: "attempt \<Rightarrow> problem \<Rightarrow> real \<Rightarrow> bool \<Rightarrow> attempt" where
  "link_attempt a prob answer_val is_correct =
     a\<lparr>attemptOf := map_option (\<lambda>old. [prob]) (attemptOf a),
       hasAnswer := map_option (\<lambda>old. [answer_val]) (hasAnswer a),
       isCorrect := map_option (\<lambda>old. [is_correct]) (isCorrect a)\<rparr>"

definition curr_score_of :: "student \<Rightarrow> int" where
  "curr_score_of s = (case studentScore s of Some (x # xs) \<Rightarrow> x | _ \<Rightarrow> 0)"

definition num_attempts_of :: "student \<Rightarrow> nat" where
  "num_attempts_of s = (case attempts s of None \<Rightarrow> 0 | Some as \<Rightarrow> length as)"

text \<open>
  The update of the student: the attempt is appended, the score and the mastery level
  are rewritten. The result is the student as mutated and the exception, if one was
  raised on the way (the mutations made before it stay in memory).
\<close>

definition update_student :: "student \<Rightarrow> attempt \<Rightarrow> bool \<Rightarrow> student \<times> exn option" where
  "update_student s a is_correct =
     (let s1 = s\<lparr>attempts := map_option (\<lambda>as. as @ [a]) (attempts s)\<rparr>;
          num_attempts = num_attempts_of s1;
          curr_score = (if is_correct then curr_score_of s1 + 1 else curr_score_of s1);
          s2 = s1\<lparr>studentScore := map_option (\<lambda>old. [curr_score]) (studentScore s1)\<rparr>
      in case masteryLevel s2 of
           None \<Rightarrow> (s2, None)
         | Some old \<Rightarrow>
             (case py_truediv (of_int curr_score) (of_nat (max 1 num_attempts)) of
                Inl e \<Rightarrow> (s2, Some e)
              | Inr mastery \<Rightarrow> (s2\<lparr>masteryLevel := Some [mastery]\<rparr>, None)))"

text \<open>\<^verbatim>\<open>prob.correctAnswer\<close> is written when the attribute exists and holds \<^verbatim>\<open>None\<close>.\<close>

definition store_answer :: "problem \<Rightarrow> real \<Rightarrow> problem" where
  "store_answer prob correct_val =
     (if correctAnswer prob = Some PyNone
      then prob\<lparr>correctAnswer := Some (PyList [PyFloat correct_val])\<rparr>
      else prob)"

text \<open>
  What the handler sees of the world: the individual \<^verbatim>\<open>get_individual(name)\<close> finds,
  the two form fields, the classes \<^verbatim>\<open>get_onto_class\<close> finds (a class makes an
  individual from a name), the student lookup, and the clock.
\<close>

record request =
  found_problem :: "problem option"
  form_student :: "string option"
  form_answer :: "string option"
  StudentClass :: "(string \<Rightarrow> student) option"
  AttemptClass :: "(string \<Rightarrow> attempt) option"
  get_student :: "string \<Rightarrow> student option"
  utcnow :: string

datatype outcome =
    ProblemNotFound
  | Unhandled exn
  | InvalidAnswer
  | CannotGrade
  | ClassNotFound
  | CreateFailed exn
  | Graded bool real real

text \<open>
  The outcome of a request, and the problem and the student as they are in memory after
  it (\<open>None\<close> for the student: no student was looked up or created).
  \<open>Graded is_correct answer_val correct_val\<close> is the one outcome that saves the
  ontology and flashes "Correct!" or "Incorrect".
\<close>

record submit_result =
  outcome :: outcome
  problem_after :: "problem option"
  student_after :: "student option"

definition grade_and_record ::
  "builtins \<Rightarrow> request \<Rightarrow> problem \<Rightarrow> string \<Rightarrow> real \<Rightarrow> real \<Rightarrow> submit_result" where
  "grade_and_record B req prob sname answer_val correct_val =
     (let is_correct = approx_equal B (PyFloat answer_val) (PyFloat correct_val)
      in case (StudentClass req, AttemptClass req) of
           (Some mk_student, Some mk_attempt) \<Rightarrow>
             (let st = (case get_student req sname of
                          None \<Rightarrow> init_student (mk_student sname)
                        | Some found \<Rightarrow> found);
                  att_name = ''Attempt_'' @ student_name st @ ''_'' @ problem_name prob
                             @ ''_'' @ utcnow req;
                  att = link_attempt (mk_attempt att_name) prob answer_val is_correct
              in case update_student st att is_correct of
                   (st', Some e) \<Rightarrow>
                     \<lparr>outcome = CreateFailed e, problem_after = Some prob, student_after = Some st'\<rparr>
                 | (st', None) \<Rightarrow>
                     \<lparr>outcome = Graded is_correct answer_val correct_val,
                      problem_after = Some (store_answer prob correct_val),
                      student_after = Some st'\<rparr>)
         | _ \<Rightarrow> \<lparr>outcome = ClassNotFound, problem_after = Some prob, student_after = None\<rparr>)"

definition problem_submit :: "builtins \<Rightarrow> request \<Rightarrow> submit_result" where
  "problem_submit B req =
     (case found_problem req of
        None \<Rightarrow> \<lparr>outcome = ProblemNotFound, problem_after = None, student_after = None\<rparr>
      | Some prob \<Rightarrow>
          (case form_student req of
             None \<Rightarrow>
               \<lparr>outcome = Unhandled AttributeError, problem_after = Some prob, student_after = None\<rparr>
           | Some raw \<Rightarrow>
               (let sname = (if py_strip raw \<noteq> [] then py_strip raw else ''Student_Anonymous'')
                in case py_float B (case form_answer req of None \<Rightarrow> PyNone | Some t \<Rightarrow> PyStr t) of
                     Inl e \<Rightarrow>
                       \<lparr>outcome = InvalidAnswer, problem_after = Some prob, student_after = None\<rparr>
                   | Inr answer_val \<Rightarrow>
                       (case (case compute_answer B prob of
                                Some c \<Rightarrow> Some c
                              | None \<Rightarrow> stored_correct B prob) of
                          None \<Rightarrow>
                            \<lparr>outcome = CannotGrade, problem_after = Some prob, student_after = None\<rparr>
                        | Some correct_val \<Rightarrow>
                            grade_and_record B req prob sname answer_val correct_val))))"


section \<open>The contracts of the specification, in its own words\<close>

text \<open>
  The value lookup of the specification: the first entry whose name is one of the
  aliases, case-insensitively; with no such entry and exactly one entry, that entry;
  a value that is not numeric is no value.
\<close>

definition name_matches :: "builtins \<Rightarrow> string list \<Rightarrow> pyval \<Rightarrow> bool" where
  "name_matches B aliases n = (truthy n \<and> (\<exists>a \<in> set aliases. py_lower (py_str B n) = py_lower a))"

definition named_entry :: "builtins \<Rightarrow> string list \<Rightarrow> (pyval \<times> pyval) list \<Rightarrow> (pyval \<times> pyval) option" where
  "named_entry B aliases ds = find (\<lambda>nv. name_matches B aliases (fst nv)) ds"

definition numeric :: "builtins \<Rightarrow> pyval \<Rightarrow> real option" where
  "numeric B v = (case py_float B v of Inl e \<Rightarrow> None | Inr x \<Rightarrow> Some x)"

definition lookup_spec :: "builtins \<Rightarrow> (pyval \<times> pyval) list \<Rightarrow> string list \<Rightarrow> real option" where
  "lookup_spec B ds aliases =
     (case named_entry B aliases ds of
        Some nv \<Rightarrow> numeric B (snd nv)
      | None \<Rightarrow> if length ds = 1 then numeric B (snd (hd ds)) else None)"

text \<open>The lookup by name alone: the numeric value of the first entry carrying an alias.\<close>

definition by_name :: "builtins \<Rightarrow> (pyval \<times> pyval) list \<Rightarrow> string list \<Rightarrow> real option" where
  "by_name B ds aliases =
     (case named_entry B aliases ds of None \<Rightarrow> None | Some nv \<Rightarrow> numeric B (snd nv))"

text \<open>
  The Rectangle rule of the specification: length and width by lookup; if either is
  unresolved and there are at least two dimensions, the first two values in declaration
  order; indeterminate if still unresolved.
\<close>

definition rectangle_spec :: "builtins \<Rightarrow> (pyval \<times> pyval) list \<Rightarrow> real option" where
  "rectangle_spec B ds =
     (case (lookup_spec B ds [''length'', ''l''], lookup_spec B ds [''width'', ''w'']) of
        (Some l, Some w) \<Rightarrow> Some (l * w)
      | _ \<Rightarrow>
          if 2 \<le> length ds then
            (case (numeric B (snd (ds ! 0)), numeric B (snd (ds ! 1))) of
               (Some l, Some w) \<Rightarrow> Some (l * w)
             | _ \<Rightarrow> None)
          else None)"

section \<open>Concrete inputs\<close>

text \<open>
  An instance of the two builtins on the values the examples use: \<^verbatim>\<open>str(2.0)\<close> is
  \<^verbatim>\<open>'2.0'\<close> and \<^verbatim>\<open>float('2.0')\<close> is \<^verbatim>\<open>2.0\<close>, and so on; \<^verbatim>\<open>float('abc')\<close> raises.
\<close>

definition float_tbl :: "string \<Rightarrow> real option" where
  "float_tbl = map_of [(''2.0'', 2), (''3.0'', 3), (''4.0'', 4), (''5.0'', 5), (''6.0'', 6),
                       (''2'', 2), (''3'', 3), (''4'', 4), (''5'', 5), (''6'', 6)]"

definition str_tbl :: "pyval \<Rightarrow> string" where
  "str_tbl v =
     (case v of
        PyNone \<Rightarrow> ''None''
      | PyInt n \<Rightarrow> (if n = 2 then ''2'' else if n = 3 then ''3'' else if n = 4 then ''4''
                    else if n = 5 then ''5'' else if n = 6 then ''6'' else ''0'')
      | PyFloat x \<Rightarrow> (if x = 2 then ''2.0'' else if x = 3 then ''3.0'' else if x = 4 then ''4.0''
                      else if x = 5 then ''5.0'' else if x = 6 then ''6.0'' else ''0.0'')
      | PyStr s \<Rightarrow> s
      | PyList vs \<Rightarrow> ''[]'')"

definition B0 :: builtins where
  "B0 = \<lparr>str_other = str_tbl, float_str = float_tbl\<rparr>"

definition dim :: "string \<Rightarrow> pyval \<Rightarrow> dimension" where
  "dim n v = \<lparr>dimensionName = PyList [PyStr n], dimensionValue = PyList [v]\<rparr>"

definition mk_problem :: "string \<Rightarrow> dimension list \<Rightarrow> problem" where
  "mk_problem kind ds =
     \<lparr>problem_name = ''P'',
      hasShape = Some [\<lparr>shape_name = kind @ ''_inst_P'', is_a = [Some kind]\<rparr>],
      hasProblemDimension = Some ds,
      hasDimension = None,
      inline_dimensionName = PyNone,
      inline_dimensionValue = PyNone,
      correctAnswer = Some (PyList [])\<rparr>"

definition dim_unnamed :: "pyval \<Rightarrow> dimension" where
  "dim_unnamed v = \<lparr>dimensionName = PyList [], dimensionValue = PyList [v]\<rparr>"

definition dim_no_value :: "string \<Rightarrow> dimension" where
  "dim_no_value n = \<lparr>dimensionName = PyList [PyStr n], dimensionValue = PyNone\<rparr>"

definition circle_r2 :: problem where
  "circle_r2 = mk_problem ''Circle'' [dim ''radius'' (PyFloat 2)]"

definition square_s3 :: problem where
  "square_s3 = mk_problem ''Square'' [dim ''Side'' (PyFloat 3)]"


definition rect_w3_l4 :: problem where
  "rect_w3_l4 = mk_problem ''Rectangle'' [dim ''width'' (PyFloat 3), dim ''LENGTH'' (PyFloat 4)]"

definition tri_b3_h6 :: problem where
  "tri_b3_h6 = mk_problem ''Triangle'' [dim ''base'' (PyFloat 3), dim ''height'' (PyFloat 6)]"

definition tri_base_only :: problem where
  "tri_base_only = mk_problem ''Triangle'' [dim ''base'' (PyFloat 3)]"

definition tri_misnamed :: problem where
  "tri_misnamed = mk_problem ''Triangle'' [dim ''side'' (PyFloat 4)]"

definition circle_no_value :: problem where
  "circle_no_value = mk_problem ''Circle'' [dim_no_value ''radius'']"

definition shape_problem :: "shape list option \<Rightarrow> problem" where
  "shape_problem ss =
     \<lparr>problem_name = ''P'',
      hasShape = ss,
      hasProblemDimension = Some [],
      hasDimension = None,
      inline_dimensionName = PyNone,
      inline_dimensionValue = PyNone,
      correctAnswer = Some (PyList [])\<rparr>"

definition tagged_shape :: shape where
  "tagged_shape = \<lparr>shape_name = ''s1'', is_a = [None, Some ''Shape'', Some ''Triangle'']\<rparr>"

definition hinted_shape :: shape where
  "hinted_shape = \<lparr>shape_name = ''Triangle_Instance_Problem_Tri_B3H6'', is_a = [Some ''Shape'']\<rparr>"

definition generic_shape :: shape where
  "generic_shape = \<lparr>shape_name = ''Blob_1'', is_a = [Some ''Shape'']\<rparr>"

definition untyped_shape :: shape where
  "untyped_shape = \<lparr>shape_name = ''Circle1'', is_a = []\<rparr>"

definition new_student :: "string \<Rightarrow> student" where
  "new_student nm =
     \<lparr>student_name = nm, studentScore = Some [], masteryLevel = Some [], attempts = Some []\<rparr>"

definition new_attempt :: "string \<Rightarrow> attempt" where
  "new_attempt nm =
     \<lparr>attempt_name = nm, attemptOf = Some [], hasAnswer = Some [], isCorrect = Some []\<rparr>"


definition req0 :: "problem \<Rightarrow> string \<Rightarrow> request" where
  "req0 p txt =
     \<lparr>found_problem = Some p,
      form_student = Some '' ada '',
      form_answer = Some txt,
      StudentClass = Some new_student,
      AttemptClass = Some new_attempt,
      get_student = (\<lambda>nm. None),
      utcnow = ''20240101T000000''\<rparr>"

section \<open>The lookup of the code is the lookup of the specification\<close>

lemma float_or_none_numeric: "float_or_none B v = numeric B v"
  by (cases v) (simp_all add: float_or_none_def numeric_def)

lemma search_by_name_find:
  "search_by_name B (map py_lower aliases) ds
     = map_option (\<lambda>nv. numeric B (snd nv)) (named_entry B aliases ds)"
  by (induction ds) (auto simp: named_entry_def name_matches_def float_or_none_numeric)

lemma get_val_lookup: "get_val B ds aliases = lookup_spec B ds aliases"
proof (cases "named_entry B aliases ds")
  case None
  then show ?thesis
    by (cases ds; cases "tl ds")
       (auto simp: get_val_def lookup_spec_def search_by_name_find float_or_none_numeric)
next
  case (Some nv)
  then show ?thesis
    by (simp add: get_val_def lookup_spec_def search_by_name_find)
qed



section \<open>Grading with tolerance\<close>

text \<open>
  C2. When both arguments coerce to numbers \<open>x\<close> and \<open>y\<close>, \<^verbatim>\<open>approx_equal(a, b)\<close> is
  true exactly when \<open>|x - y| \<le> max(0.05, 0.02 * |y|)\<close>; when either coercion raises,
  the result is \<^verbatim>\<open>False\<close> (the function has no other outcome: the handler catches
  every exception of the two coercions, and the comparison raises none).
\<close>

theorem approx_equal_contract:
  "(py_float B a = Inr x \<and> py_float B b = Inr y \<longrightarrow>
      approx_equal B a b = (\<bar>x - y\<bar> \<le> max 0.05 (0.02 * \<bar>y\<bar>)))
   \<and> ((\<exists>e. py_float B a = Inl e) \<or> (\<exists>e. py_float B b = Inl e) \<longrightarrow>
      approx_equal B a b = False)"
  by (auto simp: approx_equal_def approx_equal_tol_def split: sum.splits)

text \<open>
  The contract at \<^verbatim>\<open>approx_equal('2.0', 2.03)\<close>, true, and at
  \<^verbatim>\<open>approx_equal('abc', 2.0)\<close>, false because \<^verbatim>\<open>float('abc')\<close> raises.
\<close>

theorem approx_equal_contract_witness:
  "py_float B0 (PyStr ''2.0'') = Inr 2 \<and> py_float B0 (PyFloat 2.03) = Inr 2.03
   \<and> approx_equal B0 (PyStr ''2.0'') (PyFloat 2.03) = True
   \<and> py_float B0 (PyStr ''abc'') = Inl ValueError
   \<and> approx_equal B0 (PyStr ''abc'') (PyFloat 2) = False"
  using approx_equal_contract [of B0 "PyStr ''2.0''" 2 "PyFloat 2.03" "2.03"]
        approx_equal_contract [of B0 "PyStr ''abc''" 0 "PyFloat 2" 0]
  by (simp add: B0_def float_tbl_def)

text \<open>
  C10 as stated fails: \<^verbatim>\<open>approx_equal(10.3, 10.0)\<close> is false, the difference 0.3 being
  above the tolerance \<open>max(0.05, 0.02 * 10) = 0.2\<close>.
\<close>

theorem approx_equal_10_3_counterexample:
  "approx_equal B0 (PyFloat 10.3) (PyFloat 10.0) = False"
  by (simp add: approx_equal_def approx_equal_tol_def)

text \<open>
  C10, amended. \<^verbatim>\<open>approx_equal(10.3, 10.0)\<close> returns false and
  \<^verbatim>\<open>approx_equal(10.1, 10.0)\<close> returns true.
\<close>

theorem approx_equal_examples:
  "approx_equal B (PyFloat 10.3) (PyFloat 10.0) = False
   \<and> approx_equal B (PyFloat 10.1) (PyFloat 10.0) = True"
  by (simp add: approx_equal_def approx_equal_tol_def)

section \<open>Answer computation\<close>

lemma rectangle_answer_eq: "rectangle_answer B ds = rectangle_spec B ds"
proof (cases ds)
  case Nil
  then show ?thesis
    by (simp add: rectangle_answer_def rectangle_spec_def get_val_lookup Let_def
             split: option.splits)
next
  case (Cons a as)
  show ?thesis
  proof (cases as)
    case Nil
    with Cons show ?thesis
      by (cases a)
         (auto simp add: rectangle_answer_def rectangle_spec_def get_val_lookup Let_def
               split: option.splits)
  next
    case (Cons b bs)
    with \<open>ds = a # as\<close> show ?thesis
      by (cases a; cases b)
         (auto simp add: rectangle_answer_def rectangle_spec_def get_val_lookup Let_def
                         numeric_def
               split: option.splits sum.splits)
  qed
qed

text \<open>The definitions that evaluating the engine on a concrete problem unfolds.\<close>

lemmas eval_defs =
  mk_problem_def dim_def dim_unnamed_def dim_no_value_def B0_def str_tbl_def float_tbl_def
  dims_for_problem_def nonempty_attr_def dim_entry_def coerce_val_def py_str_def
  shape_for_problem_def known_kinds_def
  named_entry_def name_matches_def numeric_def lookup_spec_def rectangle_spec_def by_name_def
  py_lower_def lower_char_def

text \<open>
  C1. For a problem whose shape resolves to Circle, Square, Rectangle or Triangle and
  whose dimension sequence holds, under one of the accepted names, a numeric value for
  each dimension the formula needs, \<^verbatim>\<open>compute_answer\<close> returns the closed form:
  \<open>\<pi> r\<^sup>2\<close>, \<open>s\<^sup>2\<close>, \<open>l w\<close> and \<open>0.5 b h\<close>. The value taken for a name is that of the first
  entry carrying it.
\<close>

theorem compute_answer_closed_form:
  assumes "dims_for_problem B p = ds"
  shows
   "(fst (shape_for_problem p) = Some ''Circle''
       \<and> named_entry B [''radius'', ''r''] ds = Some (n, v) \<and> numeric B v = Some r
       \<longrightarrow> compute_answer B p = Some (pi * r\<^sup>2))
    \<and> (fst (shape_for_problem p) = Some ''Square''
       \<and> named_entry B [''side'', ''s''] ds = Some (n, v) \<and> numeric B v = Some s
       \<longrightarrow> compute_answer B p = Some (s\<^sup>2))
    \<and> (fst (shape_for_problem p) = Some ''Rectangle''
       \<and> named_entry B [''length'', ''l''] ds = Some (n, v) \<and> numeric B v = Some l
       \<and> named_entry B [''width'', ''w''] ds = Some (n', v') \<and> numeric B v' = Some w
       \<longrightarrow> compute_answer B p = Some (l * w))
    \<and> (fst (shape_for_problem p) = Some ''Triangle''
       \<and> named_entry B [''base'', ''b''] ds = Some (n, v) \<and> numeric B v = Some b
       \<and> named_entry B [''height'', ''h''] ds = Some (n', v') \<and> numeric B v' = Some h
       \<longrightarrow> compute_answer B p = Some (0.5 * b * h))"
  using assms
  by (auto simp: compute_answer_def Let_def get_val_lookup lookup_spec_def rectangle_answer_eq
                 rectangle_spec_def power2_eq_square)

text \<open>
  The four formulas at a circle of radius 2 (answer \<open>4\<pi>\<close>), a square of side 3, a
  rectangle of width 3 and length 4, and a triangle of base 3 and height 6.
\<close>

theorem compute_answer_closed_form_witness:
  "dims_for_problem B0 circle_r2 = [(PyStr ''radius'', PyStr ''2.0'')]
   \<and> fst (shape_for_problem circle_r2) = Some ''Circle''
   \<and> named_entry B0 [''radius'', ''r''] (dims_for_problem B0 circle_r2)
       = Some (PyStr ''radius'', PyStr ''2.0'')
   \<and> numeric B0 (PyStr ''2.0'') = Some 2
   \<and> compute_answer B0 circle_r2 = Some (4 * pi)
   \<and> fst (shape_for_problem square_s3) = Some ''Square''
   \<and> named_entry B0 [''side'', ''s''] (dims_for_problem B0 square_s3)
       = Some (PyStr ''Side'', PyStr ''3.0'')
   \<and> compute_answer B0 square_s3 = Some 9
   \<and> fst (shape_for_problem rect_w3_l4) = Some ''Rectangle''
   \<and> named_entry B0 [''length'', ''l''] (dims_for_problem B0 rect_w3_l4)
       = Some (PyStr ''LENGTH'', PyStr ''4.0'')
   \<and> named_entry B0 [''width'', ''w''] (dims_for_problem B0 rect_w3_l4)
       = Some (PyStr ''width'', PyStr ''3.0'')
   \<and> compute_answer B0 rect_w3_l4 = Some 12
   \<and> fst (shape_for_problem tri_b3_h6) = Some ''Triangle''
   \<and> named_entry B0 [''base'', ''b''] (dims_for_problem B0 tri_b3_h6)
       = Some (PyStr ''base'', PyStr ''3.0'')
   \<and> named_entry B0 [''height'', ''h''] (dims_for_problem B0 tri_b3_h6)
       = Some (PyStr ''height'', PyStr ''6.0'')
   \<and> compute_answer B0 tri_b3_h6 = Some 9"
  using compute_answer_closed_form [of B0 circle_r2 "dims_for_problem B0 circle_r2"
           "PyStr ''radius''" "PyStr ''2.0''" 2]
        compute_answer_closed_form [of B0 square_s3 "dims_for_problem B0 square_s3"
           "PyStr ''Side''" "PyStr ''3.0''" 0 3]
        compute_answer_closed_form [of B0 rect_w3_l4 "dims_for_problem B0 rect_w3_l4"
           "PyStr ''LENGTH''" "PyStr ''4.0''" 0 0 4 "PyStr ''width''" "PyStr ''3.0''" 3]
        compute_answer_closed_form [of B0 tri_b3_h6 "dims_for_problem B0 tri_b3_h6"
           "PyStr ''base''" "PyStr ''3.0''" 0 0 0 "PyStr ''height''" "PyStr ''6.0''" 0 3 6]
  by (simp add: circle_r2_def square_s3_def rect_w3_l4_def tri_b3_h6_def eval_defs)

text \<open>
  C3. On a Triangle whose dimension sequence has exactly one entry, the lookup of
  \<^verbatim>\<open>get_val\<close> falls back to that entry for the base and for the height alike: with
  only \<open>base = 3\<close> the answer is \<open>0.5 * 3 * 3\<close>, and with one entry named
  \<open>side = 4\<close> it is \<open>0.5 * 4 * 4\<close>, where the claim asks for no answer.
\<close>

theorem triangle_single_dimension_fallback:
  "compute_answer B0 tri_base_only = Some 4.5 \<and> compute_answer B0 tri_misnamed = Some 8"
  by (simp add: tri_base_only_def tri_misnamed_def eval_defs compute_answer_def get_val_lookup)

text \<open>
  Away from one-entry sequences the Triangle branch is as claimed: a base or a height
  that no entry names leaves the answer indeterminate.
\<close>

lemma triangle_unresolved_none:
  assumes "fst (shape_for_problem p) = Some ''Triangle''"
    and "length (dims_for_problem B p) \<noteq> 1"
    and "named_entry B [''base'', ''b''] (dims_for_problem B p) = None
         \<or> named_entry B [''height'', ''h''] (dims_for_problem B p) = None"
  shows "compute_answer B p = None"
  using assms
  by (auto simp: compute_answer_def Let_def get_val_lookup lookup_spec_def split: option.splits)



section \<open>Dimension collection\<close>

lemma coerce_val_str_or_none: "coerce_val B v = PyNone \<or> (\<exists>s. coerce_val B v = PyStr s)"
  by (simp add: coerce_val_def)

lemma dim_entry_str_or_none:
  assumes "dim_entry B d = Inr (n, v)"
  shows "v = PyNone \<or> (\<exists>s. v = PyStr s)"
proof -
  from assms obtain raw where "v = coerce_val B raw"
    by (auto simp: dim_entry_def Let_def split: sum.splits if_splits)
  then show ?thesis
    using coerce_val_str_or_none [of B raw] by simp
qed

lemma dims_loop_str_or_none:
  "(n, v) \<in> set (dims_loop B ds) \<Longrightarrow> v = PyNone \<or> (\<exists>s. v = PyStr s)"
proof (induction ds)
  case Nil
  then show ?case by simp
next
  case (Cons d ds)
  show ?case
  proof (cases "dim_entry B d")
    case (Inl e)
    with Cons.prems show ?thesis by simp
  next
    case (Inr nv)
    with Cons.prems have "(n, v) = nv \<or> (n, v) \<in> set (dims_loop B ds)"
      by auto
    then show ?thesis
    proof
      assume "(n, v) = nv"
      with Inr have "dim_entry B d = Inr (n, v)" by simp
      then show ?thesis by (rule dim_entry_str_or_none)
    next
      assume "(n, v) \<in> set (dims_loop B ds)"
      then show ?thesis by (rule Cons.IH)
    qed
  qed
qed

lemma inline_dims_str_or_none:
  "(n, v) \<in> set (inline_dims B p) \<Longrightarrow> v = PyNone \<or> (\<exists>s. v = PyStr s)"
  using coerce_val_str_or_none [of B]
  by (auto simp: inline_dims_def Let_def split: if_splits)

text \<open>
  C9 as stated fails: a dimension that carries no value contributes the pair of its name
  and \<^verbatim>\<open>None\<close>; the coercion to a string is skipped for \<^verbatim>\<open>None\<close>.
\<close>

theorem dims_none_value_counterexample:
  "dims_for_problem B0 circle_no_value = [(PyStr ''radius'', PyNone)]"
  by (simp add: circle_no_value_def eval_defs)

text \<open>
  C9, amended. Every value in the sequence \<^verbatim>\<open>dims_for_problem\<close> returns is either
  \<^verbatim>\<open>None\<close> or a string.
\<close>

theorem dims_values_str_or_none:
  "\<forall>(n, v) \<in> set (dims_for_problem B p). v = PyNone \<or> (\<exists>s. v = PyStr s)"
proof -
  have "v = PyNone \<or> (\<exists>s. v = PyStr s)" if "(n, v) \<in> set (dims_for_problem B p)" for n v
  proof (cases "nonempty_attr (hasProblemDimension p)")
    case True
    with that show ?thesis
      by (auto simp: dims_for_problem_def dest: dims_loop_str_or_none)
  next
    case False
    with that show ?thesis
      by (cases "nonempty_attr (hasDimension p)")
         (auto simp: dims_for_problem_def dest: dims_loop_str_or_none inline_dims_str_or_none)
  qed
  then show ?thesis by auto
qed

text \<open>
  The dimensions of the rectangle of width 3 and length 4, stored as floats, come back
  as the strings \<open>3.0\<close> and \<open>4.0\<close>.
\<close>

theorem dims_values_str_or_none_witness:
  "(PyStr ''width'', PyStr ''3.0'') \<in> set (dims_for_problem B0 rect_w3_l4)
   \<and> (PyStr ''LENGTH'', PyStr ''4.0'') \<in> set (dims_for_problem B0 rect_w3_l4)
   \<and> (\<exists>s. snd (dims_for_problem B0 rect_w3_l4 ! 0) = PyStr s)
   \<and> (\<exists>s. snd (dims_for_problem B0 rect_w3_l4 ! 1) = PyStr s)"
  using dims_values_str_or_none [of B0 rect_w3_l4]
  by (simp add: rect_w3_l4_def eval_defs)

section \<open>Shape resolution\<close>

lemma first_known_find:
  "first_known cs
     = (case find (\<lambda>c. \<exists>k \<in> set known_kinds. c = Some k) cs of None \<Rightarrow> None | Some c \<Rightarrow> c)"
  by (induction cs rule: first_known.induct) auto

lemma split_on_nonempty: "split_on sep s \<noteq> []"
  by (induction s) (auto split: list.splits)

lemma hd_split_on: "hd (split_on sep s) = takeWhile (\<lambda>c. c \<noteq> sep) s"
  by (induction s) (auto split: list.splits simp: split_on_nonempty)

lemma name_hint_takeWhile: "name_hint nm = takeWhile (\<lambda>c. c \<noteq> CHR ''_'') nm"
  by (simp add: name_hint_def hd_split_on)

text \<open>
  C8. \<^verbatim>\<open>shape_for_problem\<close> is an ordered chain. A problem with no linked shape gives
  (unknown, none). Otherwise, with \<open>s\<close> the linked shape: the first type tag of \<open>s\<close>
  that is one of the four kinds is returned; if there is none and the identifier of
  \<open>s\<close> contains the delimiter \<open>_\<close>, the token before the first delimiter is returned
  when it is one of the four kinds; if that yields nothing either, the first declared
  type tag is returned, whatever it is (unknown when \<open>s\<close> declares no type tag).
\<close>

theorem shape_for_problem_chain:
  "(hasShape p = None \<or> hasShape p = Some [] \<longrightarrow> shape_for_problem p = (None, None))
   \<and> (hasShape p = Some (s # ss)
        \<and> find (\<lambda>c. \<exists>k \<in> set known_kinds. c = Some k) (is_a s) = Some (Some k)
      \<longrightarrow> shape_for_problem p = (Some k, Some s))
   \<and> (hasShape p = Some (s # ss)
        \<and> find (\<lambda>c. \<exists>k \<in> set known_kinds. c = Some k) (is_a s) = None
        \<and> CHR ''_'' \<in> set (shape_name s)
        \<and> takeWhile (\<lambda>c. c \<noteq> CHR ''_'') (shape_name s) \<in> set known_kinds
      \<longrightarrow> shape_for_problem p
            = (Some (takeWhile (\<lambda>c. c \<noteq> CHR ''_'') (shape_name s)), Some s))
   \<and> (hasShape p = Some (s # ss)
        \<and> find (\<lambda>c. \<exists>k \<in> set known_kinds. c = Some k) (is_a s) = None
        \<and> \<not> (CHR ''_'' \<in> set (shape_name s)
              \<and> takeWhile (\<lambda>c. c \<noteq> CHR ''_'') (shape_name s) \<in> set known_kinds)
        \<and> is_a s = c # cs
      \<longrightarrow> shape_for_problem p = (c, Some s))
   \<and> (hasShape p = Some (s # ss)
        \<and> \<not> (CHR ''_'' \<in> set (shape_name s)
              \<and> takeWhile (\<lambda>c. c \<noteq> CHR ''_'') (shape_name s) \<in> set known_kinds)
        \<and> is_a s = []
      \<longrightarrow> shape_for_problem p = (None, Some s))"
  by (auto simp: shape_for_problem_def first_known_find name_hint_takeWhile
           split: option.splits)

lemmas shape_eval =
  shape_problem_def tagged_shape_def hinted_shape_def generic_shape_def untyped_shape_def
  known_kinds_def

text \<open>
  The steps: no shape; a shape tagged \<open>Shape\<close> and \<open>Triangle\<close>; a shape tagged
  \<open>Shape\<close> only and named \<open>Triangle_Instance_Problem_Tri_B3H6\<close>; a shape tagged
  \<open>Shape\<close> only and named \<open>Blob_1\<close>; a shape with no type tag named \<open>Circle1\<close>.
\<close>

theorem shape_for_problem_chain_witness:
  "shape_for_problem (shape_problem None) = (None, None)
   \<and> shape_for_problem (shape_problem (Some [tagged_shape]))
       = (Some ''Triangle'', Some tagged_shape)
   \<and> shape_for_problem (shape_problem (Some [hinted_shape]))
       = (Some ''Triangle'', Some hinted_shape)
   \<and> shape_for_problem (shape_problem (Some [generic_shape]))
       = (Some ''Shape'', Some generic_shape)
   \<and> shape_for_problem (shape_problem (Some [untyped_shape])) = (None, Some untyped_shape)"
  using shape_for_problem_chain [of "shape_problem None"]
        shape_for_problem_chain [of "shape_problem (Some [untyped_shape])" untyped_shape "[]"]
        shape_for_problem_chain [of "shape_problem (Some [tagged_shape])" tagged_shape "[]"
           "''Triangle''"]
        shape_for_problem_chain [of "shape_problem (Some [hinted_shape])" hinted_shape "[]"]
        shape_for_problem_chain [of "shape_problem (Some [generic_shape])" generic_shape "[]"
           _ "Some ''Shape''" "[]"]
  by (simp add: shape_eval)

section \<open>Mastery update\<close>








section \<open>Grading a submission\<close>

text \<open>
  How the stored answer is read: nothing when the attribute is missing, \<^verbatim>\<open>None\<close>, an
  empty list or any other value that tests false; otherwise the first element of the
  list, or the value itself, coerced with \<^verbatim>\<open>float\<close>.
\<close>

lemma stored_correct_cases:
  "stored_correct B prob =
     (case correctAnswer prob of
        None \<Rightarrow> None
      | Some (PyList []) \<Rightarrow> None
      | Some (PyList (v # vs)) \<Rightarrow> numeric B v
      | Some v \<Rightarrow> if truthy v then numeric B v else None)"
  by (auto simp: stored_correct_def numeric_def Let_def
           split: option.splits pyval.splits list.splits sum.splits)

lemma grade_and_record_outcome:
  assumes "StudentClass req = Some mk_student" "AttemptClass req = Some mk_attempt"
  shows "outcome (grade_and_record B req prob sname a c)
           = Graded (approx_equal B (PyFloat a) (PyFloat c)) a c"
  using assms
  by (simp add: grade_and_record_def Let_def update_student_def py_truediv_def
           split: option.splits prod.splits)

lemma compute_no_value: "compute_answer B0 (circle_no_value\<lparr>correctAnswer := ca\<rparr>) = None"
  by (simp add: circle_no_value_def eval_defs compute_answer_def get_val_lookup)

lemma compute_no_value_stored: "compute_answer B0 circle_no_value = None"
  by (simp add: circle_no_value_def eval_defs compute_answer_def get_val_lookup)

text \<open>
  C7. Take a submission with a numeric answer for a problem on which
  \<^verbatim>\<open>compute_answer\<close> is indeterminate. If the stored \<^verbatim>\<open>correctAnswer\<close> is absent
  (no attribute, \<^verbatim>\<open>None\<close>, or an empty list) or unreadable (\<^verbatim>\<open>float\<close> raises on
  it), the outcome is the cannot-grade failure: no attempt is recorded, no student is
  touched, and nothing is graded. If it is readable, the submission is graded against
  it. The stored answer is the first element of the list, or the value itself when it is
  not a list.
\<close>

theorem submit_falls_back_to_stored:
  assumes "found_problem req = Some prob" "form_student req = Some raw"
    and "form_answer req = Some txt" "float_str B txt = Some answer_val"
    and "compute_answer B prob = None"
  shows
    "((correctAnswer prob = None \<or> correctAnswer prob = Some PyNone
        \<or> correctAnswer prob = Some (PyList []))
        \<longrightarrow> problem_submit B req
              = \<lparr>outcome = CannotGrade, problem_after = Some prob, student_after = None\<rparr>)
     \<and> (((correctAnswer prob = Some (PyList (v # vs))
            \<or> (correctAnswer prob = Some v \<and> \<not> is_list v \<and> truthy v))
          \<and> py_float B v = Inl e)
        \<longrightarrow> problem_submit B req
              = \<lparr>outcome = CannotGrade, problem_after = Some prob, student_after = None\<rparr>)
     \<and> (((correctAnswer prob = Some (PyList (v # vs))
            \<or> (correctAnswer prob = Some v \<and> \<not> is_list v \<and> truthy v))
          \<and> py_float B v = Inr c
          \<and> StudentClass req = Some mk_student \<and> AttemptClass req = Some mk_attempt)
        \<longrightarrow> outcome (problem_submit B req)
              = Graded (approx_equal B (PyFloat answer_val) (PyFloat c)) answer_val c)"
  using assms
  by (auto simp: problem_submit_def Let_def stored_correct_cases numeric_def
                 grade_and_record_outcome split: pyval.splits)

text \<open>
  A circle whose radius carries no value, answered with \<open>5.0\<close>: with an empty stored
  answer and with the stored answer \<open>abc\<close> the outcome is cannot-grade; with the stored
  answer 5.05 the submission is graded correct, with 6 it is graded incorrect.
\<close>

theorem submit_falls_back_to_stored_witness:
  "compute_answer B0 circle_no_value = None
   \<and> correctAnswer circle_no_value = Some (PyList [])
   \<and> problem_submit B0 (req0 circle_no_value ''5.0'')
       = \<lparr>outcome = CannotGrade, problem_after = Some circle_no_value, student_after = None\<rparr>
   \<and> outcome (problem_submit B0
        (req0 (circle_no_value\<lparr>correctAnswer := Some (PyList [PyStr ''abc''])\<rparr>) ''5.0''))
       = CannotGrade
   \<and> outcome (problem_submit B0
        (req0 (circle_no_value\<lparr>correctAnswer := Some (PyList [PyFloat 5.05])\<rparr>) ''5.0''))
       = Graded True 5 5.05
   \<and> outcome (problem_submit B0
        (req0 (circle_no_value\<lparr>correctAnswer := Some (PyList [PyFloat 6])\<rparr>) ''5.0''))
       = Graded False 5 6"
  using submit_falls_back_to_stored [of "req0 circle_no_value ''5.0''" circle_no_value
          "'' ada ''" "''5.0''" B0 5]
        submit_falls_back_to_stored [of
          "req0 (circle_no_value\<lparr>correctAnswer := Some (PyList [PyStr ''abc''])\<rparr>) ''5.0''"
          "circle_no_value\<lparr>correctAnswer := Some (PyList [PyStr ''abc''])\<rparr>"
          "'' ada ''" "''5.0''" B0 5 "PyStr ''abc''" "[]" ValueError]
        submit_falls_back_to_stored [of
          "req0 (circle_no_value\<lparr>correctAnswer := Some (PyList [PyFloat 5.05])\<rparr>) ''5.0''"
          "circle_no_value\<lparr>correctAnswer := Some (PyList [PyFloat 5.05])\<rparr>"
          "'' ada ''" "''5.0''" B0 5 "PyFloat 5.05" "[]" _ "5.05" new_student new_attempt]
        submit_falls_back_to_stored [of
          "req0 (circle_no_value\<lparr>correctAnswer := Some (PyList [PyFloat 6])\<rparr>) ''5.0''"
          "circle_no_value\<lparr>correctAnswer := Some (PyList [PyFloat 6])\<rparr>"
          "'' ada ''" "''5.0''" B0 5 "PyFloat 6" "[]" _ 6 new_student new_attempt]
  by (simp add: compute_no_value compute_no_value_stored req0_def approx_equal_def
                approx_equal_tol_def)
     (simp add: circle_no_value_def mk_problem_def B0_def float_tbl_def)

text \<open>
  A graded request leaves the student as \<^verbatim>\<open>update_student\<close> leaves it: a run of graded
  submissions of one student is a run of \<^verbatim>\<open>update_student\<close>.
\<close>

lemma grade_and_record_student:
  assumes "StudentClass req = Some mk_student" "AttemptClass req = Some mk_attempt"
    and "get_student req sname = Some st"
  shows "student_after (grade_and_record B req prob sname a c)
           = Some (fst (update_student st
                (link_attempt
                   (mk_attempt (''Attempt_'' @ student_name st @ ''_'' @ problem_name prob
                                @ ''_'' @ utcnow req))
                   prob a (approx_equal B (PyFloat a) (PyFloat c)))
                (approx_equal B (PyFloat a) (PyFloat c))))"
  using assms
  by (simp add: grade_and_record_def Let_def split: prod.splits option.splits)

end
